theory Spec2Isabelle
  imports Main "HOL-Library.Word"
begin

section \<open>The STOMP client of StompClient.h\<close>

text \<open>
  A shallow embedding of the class \<open>Stomp::StompClient\<close> (src/StompClient.h). Member
  functions become functions from the client's state to its new state. Private members
  are written without their leading underscore (\<open>_state\<close> is \<open>state\<close>, \<open>_send\<close> is
  \<open>send\<close>), since an identifier cannot start with one; \<open>id\<close> and \<open>value\<close> carry a
  prime.

  What the client does to its surroundings is appended to the field \<open>effects\<close>: every
  \<open>_wsClient.sendTXT\<close> call with its two arguments, and every invocation of a user
  callback. The clock \<open>millis()\<close> is the field \<open>millis\<close>. Writes to \<open>Serial\<close> are
  diagnostics and are left out.
\<close>

subsection \<open>Types of Stomp.h and of the transport\<close>

text \<open>
  Stomp.h is not among the sources; the types below are declared as StompClient.h uses
  them.
\<close>

datatype Stomp_State_t = OPENING | CONNECTED | DISCONNECTING | DISCONNECTED

datatype Stomp_AckMode_t = AUTO | CLIENT | CLIENT_INDIVIDUAL

datatype Stomp_Ack_t = CONTINUE | ACK | NACK

record StompHeader =
  key :: string
  value' :: string

type_synonym StompHeaders = "StompHeader list"

record StompCommand =
  command :: string
  headers :: StompHeaders
  body :: string

text \<open>
  A message handler returns the acknowledgement decision for a message. A state handler
  returns nothing; it is identified by a number (the address of the user's function).
  A null handler is \<open>None\<close>.
\<close>

type_synonym StompMessageHandler = "StompCommand \<Rightarrow> Stomp_Ack_t"

type_synonym StompStateHandler = nat

record StompSubscription =
  id' :: int
  messageHandler :: "StompMessageHandler option"

text \<open>The event types of WebSocketsClient (a library outside the repository).\<close>

datatype WStype_t =
    WStype_ERROR | WStype_DISCONNECTED | WStype_CONNECTED | WStype_TEXT | WStype_BIN
  | WStype_FRAGMENT_TEXT_START | WStype_FRAGMENT_BIN_START | WStype_FRAGMENT
  | WStype_FRAGMENT_FIN | WStype_PING | WStype_PONG

datatype effect =
    SendTXT string nat
  | StateCallback StompStateHandler StompCommand
  | MessageCallback int StompCommand

text \<open>
  An access to \<open>_subscriptions[i]\<close> with \<open>i\<close> outside the array has no defined
  behaviour in C++; the model stops there with \<open>OutOfBounds i\<close>.
\<close>

datatype error = OutOfBounds int

definition STOMP_MAX_SUBSCRIPTIONS :: nat where
  "STOMP_MAX_SUBSCRIPTIONS = 8"

record StompClient =
  sockjs :: bool
  user :: "string option"
  lastSent :: "32 word"
  heartbeatInterval :: "32 word"
  state :: Stomp_State_t
  subscriptions :: "StompSubscription list"
  connectHandler :: "StompStateHandler option"
  disconnectHandler :: "StompStateHandler option"
  receiptHandler :: "StompStateHandler option"
  errorHandler :: "StompStateHandler option"
  heartbeats :: "32 word"
  commandCount :: "32 word"
  millis :: "32 word"
  effects :: "effect list"

definition preferredHeartbeat :: int where
  "preferredHeartbeat = 10000"

subsection \<open>The Arduino String operations used\<close>

text \<open>
  \<open>String\<close> is the Arduino core's string class; a value is its sequence of bytes.
  \<open>String(n)\<close> prints a number in decimal, \<open>startsWith\<close> tests a prefix,
  \<open>substring(n)\<close> drops the first \<open>n\<close> bytes, and \<open>toInt\<close> is C's \<open>atol\<close>: it skips
  white space, reads an optional sign and the longest run of decimal digits, and
  returns 0 when there is no digit. \<open>long\<close> has 32 bits on the boards the client is
  written for; a number too large for it is returned as the nearest \<open>long\<close>, as
  \<open>strtol\<close> does.
\<close>

definition nl :: char where
  "nl = CHR 0x0A"

fun String_nat :: "nat \<Rightarrow> string" where
  "String_nat n =
     (if n < 10 then [''0123456789'' ! n]
      else String_nat (n div 10) @ [''0123456789'' ! (n mod 10)])"

declare String_nat.simps [simp del]

definition String_int :: "int \<Rightarrow> string" where
  "String_int i = (if i < 0 then CHR ''-'' # String_nat (nat (- i)) else String_nat (nat i))"

definition startsWith :: "string \<Rightarrow> string \<Rightarrow> bool" where
  "startsWith s p = (take (length p) s = p)"

definition substring :: "string \<Rightarrow> nat \<Rightarrow> string" where
  "substring s n = drop n s"

definition isspace :: "char \<Rightarrow> bool" where
  "isspace c = (c \<in> set [CHR '' '', CHR 0x09, CHR 0x0A, CHR 0x0B, CHR 0x0C, CHR 0x0D])"

definition isdigit :: "char \<Rightarrow> bool" where
  "isdigit c = (c \<in> set ''0123456789'')"

definition digit_value :: "char \<Rightarrow> int" where
  "digit_value c = int (of_char c) - 48"

fun atol_digits :: "int \<Rightarrow> string \<Rightarrow> int" where
  "atol_digits acc [] = acc"
| "atol_digits acc (c # cs) =
     (if isdigit c then atol_digits (acc * 10 + digit_value c) cs else acc)"

definition LONG_MAX :: int where
  "LONG_MAX = 2147483647"

definition LONG_MIN :: int where
  "LONG_MIN = - 2147483648"

definition atol :: "string \<Rightarrow> int" where
  "atol s =
     (case dropWhile isspace s of
        [] \<Rightarrow> 0
      | c # r \<Rightarrow>
          if c = CHR ''-'' then - atol_digits 0 r
          else if c = CHR ''+'' then atol_digits 0 r
          else atol_digits 0 (c # r))"

definition toInt :: "string \<Rightarrow> int" where
  "toInt s = max LONG_MIN (min LONG_MAX (atol s))"

subsection \<open>Header lookup\<close>

text \<open>
  Modelled from the spec: \<open>StompHeaders::getValue\<close>, declared in Stomp.h, which is not
  among the sources. Lookup by key returns the value of the first header with that key,
  in declaration order; a key that is absent yields the empty string.
\<close>

fun getValue :: "StompHeaders \<Rightarrow> string \<Rightarrow> string" where
  "getValue [] k = ''''"
| "getValue (h # hs) k = (if key h = k then value' h else getValue hs k)"

subsection \<open>Sending\<close>

definition send :: "string list \<Rightarrow> StompClient \<Rightarrow> StompClient" where
  "send lines s =
     (let msg = concat (map (\<lambda>l. l @ [nl]) lines) @ [nl]
      in s\<lparr>effects := effects s @ [SendTXT msg (length msg + 1)],
           lastSent := millis s,
           commandCount := commandCount s + 1\<rparr>)"

text \<open>
  \<open>_sendWithHeaders\<close> writes \<open>lines[0]\<close>, then the extra headers, then the lines from
  index 1 on: it takes the first line and the remaining lines.
\<close>

definition sendWithHeaders ::
  "string \<Rightarrow> string list \<Rightarrow> StompHeaders \<Rightarrow> StompClient \<Rightarrow> StompClient" where
  "sendWithHeaders line0 rest hdrs s =
     (let msg = (line0 @ [nl])
                @ concat (map (\<lambda>h. key h @ '':'' @ value' h @ [nl]) hdrs)
                @ concat (map (\<lambda>l. l @ [nl]) rest)
                @ [nl]
      in s\<lparr>effects := effects s @ [SendTXT msg (length msg + 1)],
           commandCount := commandCount s + 1\<rparr>)"

definition sendHeartbeat :: "StompClient \<Rightarrow> StompClient" where
  "sendHeartbeat s =
     (let msg = [nl]
      in s\<lparr>effects := effects s @ [SendTXT msg (length msg)],
           lastSent := millis s,
           commandCount := commandCount s + 1\<rparr>)"

definition doHeartbeat :: "StompClient \<Rightarrow> StompClient" where
  "doHeartbeat s =
     (if heartbeatInterval s \<le> 0 then s
      else if millis s - lastSent s > heartbeatInterval s then sendHeartbeat s
      else s)"

subsection \<open>Construction\<close>

text \<open>
  The constructor sets every slot's \<open>id\<close> to -1. It takes the \<open>sockjs\<close> flag; the host,
  port and url only feed \<open>begin\<close>, which opens the transport, and \<open>_id\<close> is never read.
  The field initialiser reads the clock into \<open>_lastSent\<close>. The constructor does not
  assign the slots' handlers; the model starts them as null, and no function reads the
  handler of a slot that \<open>subscribe\<close> has not written.
\<close>

definition StompClient_new :: "bool \<Rightarrow> 32 word \<Rightarrow> StompClient" where
  "StompClient_new sockjs_arg now =
     \<lparr>sockjs = sockjs_arg, user = None, lastSent = now, heartbeatInterval = 0,
      state = DISCONNECTED,
      subscriptions = replicate STOMP_MAX_SUBSCRIPTIONS \<lparr>id' = - 1, messageHandler = None\<rparr>,
      connectHandler = None, disconnectHandler = None, receiptHandler = None,
      errorHandler = None, heartbeats = 0, commandCount = 0, millis = now, effects = []\<rparr>"

definition onConnect :: "StompStateHandler option \<Rightarrow> StompClient \<Rightarrow> StompClient" where
  "onConnect handler s = s\<lparr>connectHandler := handler\<rparr>"

definition onDisconnect :: "StompStateHandler option \<Rightarrow> StompClient \<Rightarrow> StompClient" where
  "onDisconnect handler s = s\<lparr>disconnectHandler := handler\<rparr>"

definition onReceipt :: "StompStateHandler option \<Rightarrow> StompClient \<Rightarrow> StompClient" where
  "onReceipt handler s = s\<lparr>receiptHandler := handler\<rparr>"

definition onError :: "StompStateHandler option \<Rightarrow> StompClient \<Rightarrow> StompClient" where
  "onError handler s = s\<lparr>errorHandler := handler\<rparr>"

definition setUser :: "string option \<Rightarrow> StompClient \<Rightarrow> StompClient" where
  "setUser u s = s\<lparr>user := u\<rparr>"

subsection \<open>Subscriptions\<close>

definition slot :: "StompSubscription list \<Rightarrow> int \<Rightarrow> error + StompSubscription" where
  "slot subs i =
     (if 0 \<le> i \<and> i < int (length subs) then Inr (subs ! nat i) else Inl (OutOfBounds i))"

definition ack_name :: "Stomp_AckMode_t \<Rightarrow> string" where
  "ack_name ackType =
     (case ackType of AUTO \<Rightarrow> ''auto'' | CLIENT \<Rightarrow> ''client''
      | CLIENT_INDIVIDUAL \<Rightarrow> ''client-individual'')"

function subscribe_loop ::
  "string \<Rightarrow> Stomp_AckMode_t \<Rightarrow> StompMessageHandler option \<Rightarrow> nat \<Rightarrow> StompClient
   \<Rightarrow> error + (int \<times> StompClient)" where
  "subscribe_loop queue ackType handler i s =
     (if i < STOMP_MAX_SUBSCRIPTIONS then
        (case slot (subscriptions s) (int i) of
           Inl e \<Rightarrow> Inl e
         | Inr sub \<Rightarrow>
             if id' sub = - 1 then
               let s1 = s\<lparr>subscriptions :=
                          (subscriptions s)[i := \<lparr>id' = int i, messageHandler = handler\<rparr>]\<rparr>
               in Inr (int i,
                       send [''SUBSCRIBE'', ''id:sub-'' @ String_int (int i),
                             ''destination:'' @ queue, ''ack:'' @ ack_name ackType] s1)
             else subscribe_loop queue ackType handler (Suc i) s)
      else Inr (- 1, s))"
  by pat_completeness auto
termination
  by (relation "measure (\<lambda>(queue, ackType, handler, i, s). STOMP_MAX_SUBSCRIPTIONS - i)") auto

declare subscribe_loop.simps [simp del]

definition subscribe ::
  "string \<Rightarrow> Stomp_AckMode_t \<Rightarrow> StompMessageHandler option \<Rightarrow> StompClient
   \<Rightarrow> error + (int \<times> StompClient)" where
  "subscribe queue ackType handler s = subscribe_loop queue ackType handler 0 s"

definition unsubscribe :: "int \<Rightarrow> StompClient \<Rightarrow> error + StompClient" where
  "unsubscribe subscription s =
     (let s1 = send [''UNSUBSCRIBE'', ''id:sub-'' @ String_int subscription] s
      in if 0 \<le> subscription \<and> subscription < int (length (subscriptions s1)) then
           Inr (s1\<lparr>subscriptions :=
                    (subscriptions s1)[nat subscription := \<lparr>id' = - 1, messageHandler = None\<rparr>]\<rparr>)
         else Inl (OutOfBounds subscription))"

subsection \<open>Acknowledgements, messages, disconnection\<close>

definition ack :: "StompCommand \<Rightarrow> StompClient \<Rightarrow> StompClient" where
  "ack message s = send [''ACK'', ''id:'' @ getValue (headers message) ''ack''] s"

definition nack :: "StompCommand \<Rightarrow> StompClient \<Rightarrow> StompClient" where
  "nack message s = send [''NACK'', ''id:'' @ getValue (headers message) ''ack''] s"

definition disconnect :: "StompClient \<Rightarrow> StompClient" where
  "disconnect s = send [''DISCONNECT'', ''receipt:'' @ String_nat (unat (commandCount s))] s"

definition sendMessage :: "string \<Rightarrow> string \<Rightarrow> StompClient \<Rightarrow> StompClient" where
  "sendMessage destination message s =
     send [''SEND'', ''destination:'' @ destination, [], message] s"

definition sendMessageAndHeaders ::
  "string \<Rightarrow> string \<Rightarrow> StompHeaders \<Rightarrow> StompClient \<Rightarrow> StompClient" where
  "sendMessageAndHeaders destination message hdrs s =
     sendWithHeaders ''SEND'' [''destination:'' @ destination, [], message] hdrs s"

subsection \<open>The connection state machine\<close>

text \<open>\<open>if (handler) { handler(command); }\<close> for a state handler.\<close>

definition invoke :: "StompStateHandler option \<Rightarrow> StompCommand \<Rightarrow> StompClient \<Rightarrow> StompClient" where
  "invoke handler c s =
     (case handler of None \<Rightarrow> s | Some h \<Rightarrow> s\<lparr>effects := effects s @ [StateCallback h c]\<rparr>)"

definition connectStomp :: "StompClient \<Rightarrow> StompClient" where
  "connectStomp s =
     (if state s \<noteq> OPENING then
        let s1 = s\<lparr>state := OPENING\<rparr>;
            heartbeatHeader = ''heart-beat:'' @ String_int preferredHeartbeat @ '',0'';
            msg = [''CONNECT'', ''accept-version:1.1,1.0'', heartbeatHeader]
                  @ (case user s1 of None \<Rightarrow> [] | Some u \<Rightarrow> [''login:'' @ u])
        in send msg s1
      else s)"

text \<open>
  \<open>parseHeartbeat\<close> also computes a substring from the first comma on, into a local
  that is never read; the model leaves it out. The maximum of two \<open>long\<close>s is stored
  into an \<open>unsigned long\<close>.
\<close>

definition parseHeartbeat :: "StompCommand \<Rightarrow> StompClient \<Rightarrow> StompClient" where
  "parseHeartbeat c s =
     (let heartBeatHeader = getValue (headers c) ''heart-beat''
      in if heartBeatHeader \<noteq> [] then
           s\<lparr>heartbeatInterval := word_of_int (max (toInt heartBeatHeader) preferredHeartbeat)\<rparr>
         else s)"

definition handleConnected :: "StompCommand \<Rightarrow> StompClient \<Rightarrow> StompClient" where
  "handleConnected c s =
     (if state s \<noteq> CONNECTED then
        let s1 = parseHeartbeat c (s\<lparr>state := CONNECTED\<rparr>)
        in invoke (connectHandler s1) c s1
      else s)"

text \<open>
  A message handler is a function of the message; its call is recorded with the slot
  index, and its result selects the acknowledgement. \<open>_handleMessage\<close> also reads the
  \<open>message-id\<close> header into a local that is never used.
\<close>

definition handleMessage :: "StompCommand \<Rightarrow> StompClient \<Rightarrow> error + StompClient" where
  "handleMessage message s =
     (let sub = getValue (headers message) ''subscription''
      in if \<not> startsWith sub ''sub-'' then Inr s
         else
           let ident = toInt (substring sub 4)
           in case slot (subscriptions s) ident of
                Inl e \<Rightarrow> Inl e
              | Inr subscription \<Rightarrow>
                  if id' subscription \<noteq> ident then Inr s
                  else
                    (case messageHandler subscription of
                       None \<Rightarrow> Inr s
                     | Some callback \<Rightarrow>
                         let s1 = s\<lparr>effects := effects s @ [MessageCallback ident message]\<rparr>
                         in (case callback message of
                               ACK \<Rightarrow> Inr (ack message s1)
                             | NACK \<Rightarrow> Inr (nack message s1)
                             | CONTINUE \<Rightarrow> Inr s1)))"

definition handleReceipt :: "StompCommand \<Rightarrow> StompClient \<Rightarrow> StompClient" where
  "handleReceipt c s =
     (let s1 = invoke (receiptHandler s) c s
      in if state s1 = DISCONNECTING then
           let s2 = s1\<lparr>state := DISCONNECTED\<rparr>
           in invoke (disconnectHandler s2) c s2
         else s1)"

definition handleError :: "StompCommand \<Rightarrow> StompClient \<Rightarrow> StompClient" where
  "handleError c s =
     (let s1 = s\<lparr>state := DISCONNECTED\<rparr>;
          s2 = invoke (errorHandler s1) c s1
      in invoke (disconnectHandler s2) c s2)"

definition handleCommand :: "StompCommand \<Rightarrow> StompClient \<Rightarrow> error + StompClient" where
  "handleCommand c s =
     (if command c = ''CONNECTED'' then Inr (handleConnected c s)
      else if command c = ''MESSAGE'' then handleMessage c s
      else if command c = ''RECEIPT'' then Inr (handleReceipt c s)
      else if command c = ''ERROR'' then Inr (handleError c s)
      else Inr s)"

text \<open>
  \<open>StompCommandParser::parse\<close> (StompCommandParser.h) is not among the sources: the
  event handler takes it as the parameter \<open>parse\<close>. \<open>text\<close> is the payload read as a
  C string, and \<open>payload[0]\<close> of an empty payload is its terminating zero.
\<close>

definition payload0 :: "string \<Rightarrow> char" where
  "payload0 text = (case text of [] \<Rightarrow> CHR 0x00 | c # cs \<Rightarrow> c)"

definition handleWebSocketEvent ::
  "(string \<Rightarrow> StompCommand) \<Rightarrow> WStype_t \<Rightarrow> string \<Rightarrow> StompClient \<Rightarrow> error + StompClient" where
  "handleWebSocketEvent parse type text s =
     (case type of
        WStype_DISCONNECTED \<Rightarrow> Inr (s\<lparr>state := DISCONNECTED\<rparr>)
      | WStype_CONNECTED \<Rightarrow> Inr (connectStomp s)
      | WStype_TEXT \<Rightarrow>
          if sockjs s then
            (if payload0 text = CHR ''h'' then Inr (s\<lparr>heartbeats := heartbeats s + 1\<rparr>)
             else if payload0 text = CHR ''o'' then Inr (connectStomp s)
             else if payload0 text = CHR ''a'' then handleCommand (parse text) s
             else Inr s)
          else handleCommand (parse text) s
      | _ \<Rightarrow> Inr s)"

subsection \<open>The frame decoder\<close>

text \<open>
  Modelled from the spec: \<open>StompCommandParser::parse\<close>, defined in
  StompCommandParser.h, which is not among the sources. The first line is the command
  token; the following lines up to the first blank line are headers, split at their
  first colon, a line without a colon being a header with an empty value; everything
  after the blank line is the body. \<open>parse\<close> returns a frame in every case (the client
  uses its result without a test), so input with no command line decodes to the frame
  with the empty command, which \<open>handleCommand\<close> discards.
\<close>

definition first_line :: "string \<Rightarrow> string" where
  "first_line t = takeWhile (\<lambda>c. c \<noteq> nl) t"

definition after_first_line :: "string \<Rightarrow> string" where
  "after_first_line t = drop 1 (dropWhile (\<lambda>c. c \<noteq> nl) t)"

definition decode_header :: "string \<Rightarrow> StompHeader" where
  "decode_header l =
     \<lparr>key = takeWhile (\<lambda>c. c \<noteq> CHR '':'') l,
      value' = drop 1 (dropWhile (\<lambda>c. c \<noteq> CHR '':'') l)\<rparr>"

function decode_headers :: "string \<Rightarrow> StompHeaders \<times> string" where
  "decode_headers t =
     (if t = [] then ([], [])
      else if first_line t = [] then ([], after_first_line t)
      else (case decode_headers (after_first_line t) of
              (hs, b) \<Rightarrow> (decode_header (first_line t) # hs, b)))"
  by pat_completeness auto
termination
proof (relation "measure length")
  show "wf (measure (length :: string \<Rightarrow> nat))"
    by simp
next
  fix t :: string
  assume "t \<noteq> []"
  then have "0 < length t"
    by simp
  moreover have "length (dropWhile (\<lambda>c. c \<noteq> nl) t) \<le> length t"
    by (rule length_dropWhile_le)
  ultimately have "length (dropWhile (\<lambda>c. c \<noteq> nl) t) - 1 < length t"
    by arith
  then show "(after_first_line t, t) \<in> measure length"
    by (simp add: after_first_line_def)
qed

declare decode_headers.simps [simp del]

definition decode :: "string \<Rightarrow> StompCommand" where
  "decode t =
     (case decode_headers (after_first_line t) of
        (hs, b) \<Rightarrow> \<lparr>command = first_line t, headers = hs, body = b\<rparr>)"

subsection \<open>The subscription table\<close>

text \<open>
  \<open>_subscriptions\<close> is an array of \<open>STOMP_MAX_SUBSCRIPTIONS\<close> elements: a client state
  is well formed when its table has that length.
\<close>

definition well_formed :: "StompClient \<Rightarrow> bool" where
  "well_formed s = (length (subscriptions s) = STOMP_MAX_SUBSCRIPTIONS)"

text \<open>Slot \<open>i\<close> stores -1 (free) or \<open>i\<close> (live).\<close>

definition slots_inv :: "StompClient \<Rightarrow> bool" where
  "slots_inv s =
     list_all (\<lambda>i. id' (subscriptions s ! i) = - 1 \<or> id' (subscriptions s ! i) = int i)
       [0..<length (subscriptions s)]"

definition full :: "StompClient \<Rightarrow> bool" where
  "full s = list_all (\<lambda>sub. id' sub \<noteq> - 1) (subscriptions s)"

text \<open>A client whose eight slots are all live, as after eight calls of \<open>subscribe\<close>.\<close>

definition full_client :: StompClient where
  "full_client =
     (StompClient_new False 0)
       \<lparr>subscriptions := map (\<lambda>i. \<lparr>id' = int i, messageHandler = None\<rparr>) [0..<8]\<rparr>"

section \<open>Properties\<close>

subsection \<open>The subscription table\<close>

lemma send_subscriptions [simp]: "subscriptions (send ls s) = subscriptions s"
  by (simp add: send_def Let_def)

lemma send_effects:
  "effects (send ls s) =
     effects s @ [SendTXT (concat (map (\<lambda>l. l @ [nl]) ls) @ [nl])
                    (length (concat (map (\<lambda>l. l @ [nl]) ls) @ [nl]) + 1)]"
  by (simp add: send_def Let_def)

lemma subscribe_loop_full:
  "well_formed s \<Longrightarrow> (\<And>j. i \<le> j \<Longrightarrow> j < STOMP_MAX_SUBSCRIPTIONS \<Longrightarrow> id' (subscriptions s ! j) \<noteq> - 1)
   \<Longrightarrow> subscribe_loop q a h i s = Inr (- 1, s)"
proof (induction q a h i s rule: subscribe_loop.induct)
  case (1 q a h i s)
  show ?case
  proof (cases "i < STOMP_MAX_SUBSCRIPTIONS")
    case False
    then show ?thesis by (simp add: subscribe_loop.simps)
  next
    case True
    with "1.prems" have sl: "slot (subscriptions s) (int i) = Inr (subscriptions s ! i)"
      by (simp add: slot_def well_formed_def)
    from "1.prems" True have nf: "id' (subscriptions s ! i) \<noteq> - 1" by simp
    have "subscribe_loop q a h (Suc i) s = Inr (- 1, s)"
      using "1.IH" [OF True sl nf] "1.prems" by simp
    with True sl nf show ?thesis
      by (subst subscribe_loop.simps) simp
  qed
qed

lemma subscribe_loop_free:
  "well_formed s \<Longrightarrow> i \<le> k \<Longrightarrow> k < STOMP_MAX_SUBSCRIPTIONS \<Longrightarrow> id' (subscriptions s ! k) = - 1
   \<Longrightarrow> (\<And>j. i \<le> j \<Longrightarrow> j < k \<Longrightarrow> id' (subscriptions s ! j) \<noteq> - 1)
   \<Longrightarrow> subscribe_loop q a h i s =
       Inr (int k,
            send [''SUBSCRIBE'', ''id:sub-'' @ String_int (int k),
                  ''destination:'' @ q, ''ack:'' @ ack_name a]
              (s\<lparr>subscriptions := (subscriptions s)[k := \<lparr>id' = int k, messageHandler = h\<rparr>]\<rparr>))"
proof (induction q a h i s rule: subscribe_loop.induct)
  case (1 q a h i s)
  from "1.prems" have lt: "i < STOMP_MAX_SUBSCRIPTIONS" by simp
  with "1.prems" have sl: "slot (subscriptions s) (int i) = Inr (subscriptions s ! i)"
    by (simp add: slot_def well_formed_def)
  show ?case
  proof (cases "i = k")
    case True
    with "1.prems" lt sl show ?thesis
      by (subst subscribe_loop.simps) (simp add: Let_def)
  next
    case False
    with "1.prems" have ik: "i < k" by simp
    with "1.prems" have nf: "id' (subscriptions s ! i) \<noteq> - 1" by simp
    have "subscribe_loop q a h (Suc i) s =
       Inr (int k,
            send [''SUBSCRIBE'', ''id:sub-'' @ String_int (int k),
                  ''destination:'' @ q, ''ack:'' @ ack_name a]
              (s\<lparr>subscriptions := (subscriptions s)[k := \<lparr>id' = int k, messageHandler = h\<rparr>]\<rparr>))"
      using "1.IH" [OF lt sl nf] "1.prems" ik by simp
    with lt sl nf show ?thesis
      by (subst subscribe_loop.simps) simp
  qed
qed

text \<open>The lowest free slot, when there is one.\<close>

lemma lowest_free:
  "k < n \<Longrightarrow> id' (subs ! k) = - 1 \<Longrightarrow>
   \<exists>r\<le>k. id' (subs ! r) = - 1 \<and> (\<forall>j<r. id' (subs ! j) \<noteq> - 1)"
proof (induction k rule: less_induct)
  case (less k)
  show ?case
  proof (cases "\<forall>j<k. id' (subs ! j) \<noteq> - 1")
    case True
    with less.prems show ?thesis by blast
  next
    case False
    then obtain j where j: "j < k" "id' (subs ! j) = - 1" by blast
    with less.prems have "j < n" by simp
    from less.IH [OF j(1) this j(2)] j(1) show ?thesis
      by (meson le_trans less_imp_le_nat)
  qed
qed

lemma slots_inv_iff:
  "slots_inv s \<longleftrightarrow>
     (\<forall>i<length (subscriptions s). id' (subscriptions s ! i) = - 1 \<or> id' (subscriptions s ! i) = int i)"
  by (auto simp: slots_inv_def list_all_iff)

lemma full_iff:
  "full s \<longleftrightarrow> (\<forall>i<length (subscriptions s). id' (subscriptions s ! i) \<noteq> - 1)"
  by (simp add: full_def list_all_length)

lemma subscribe_total:
  assumes "well_formed s"
  shows "(full s \<and> subscribe q a h s = Inr (- 1, s)) \<or>
         (\<exists>r<STOMP_MAX_SUBSCRIPTIONS. id' (subscriptions s ! r) = - 1 \<and>
             (\<forall>j<r. id' (subscriptions s ! j) \<noteq> - 1) \<and>
             subscribe q a h s =
               Inr (int r,
                    send [''SUBSCRIBE'', ''id:sub-'' @ String_int (int r),
                          ''destination:'' @ q, ''ack:'' @ ack_name a]
                      (s\<lparr>subscriptions := (subscriptions s)[r := \<lparr>id' = int r, messageHandler = h\<rparr>]\<rparr>)))"
proof (cases "full s")
  case True
  with assms have "subscribe_loop q a h 0 s = Inr (- 1, s)"
    by (intro subscribe_loop_full) (simp_all add: full_iff well_formed_def)
  with True show ?thesis by (simp add: subscribe_def)
next
  case False
  with assms obtain k where k: "k < STOMP_MAX_SUBSCRIPTIONS" "id' (subscriptions s ! k) = - 1"
    by (auto simp: full_iff well_formed_def)
  from lowest_free [OF this] obtain r where r: "r \<le> k" "id' (subscriptions s ! r) = - 1"
    "\<forall>j<r. id' (subscriptions s ! j) \<noteq> - 1" by blast
  with k have rlt: "r < STOMP_MAX_SUBSCRIPTIONS" by simp
  have "subscribe_loop q a h 0 s =
               Inr (int r,
                    send [''SUBSCRIBE'', ''id:sub-'' @ String_int (int r),
                          ''destination:'' @ q, ''ack:'' @ ack_name a]
                      (s\<lparr>subscriptions := (subscriptions s)[r := \<lparr>id' = int r, messageHandler = h\<rparr>]\<rparr>))"
    using assms rlt r by (intro subscribe_loop_free) simp_all
  with rlt r show ?thesis by (auto simp: subscribe_def)
qed

lemma unsubscribe_in_range_eq:
  "well_formed s \<Longrightarrow> 0 \<le> n \<Longrightarrow> n < int STOMP_MAX_SUBSCRIPTIONS \<Longrightarrow>
   unsubscribe n s =
     Inr ((send [''UNSUBSCRIBE'', ''id:sub-'' @ String_int n] s)
            \<lparr>subscriptions := (subscriptions s)[nat n := \<lparr>id' = - 1, messageHandler = None\<rparr>]\<rparr>)"
  by (simp add: unsubscribe_def Let_def well_formed_def)

lemma slots_inv_update:
  assumes "slots_inv s" "k < length (subscriptions s)" "v = - 1 \<or> v = int k"
  shows "slots_inv (s\<lparr>subscriptions := (subscriptions s)[k := \<lparr>id' = v, messageHandler = h\<rparr>]\<rparr>)"
proof -
  have "id' ((subscriptions s)[k := \<lparr>id' = v, messageHandler = h\<rparr>] ! i) = - 1 \<or>
        id' ((subscriptions s)[k := \<lparr>id' = v, messageHandler = h\<rparr>] ! i) = int i"
    if "i < length (subscriptions s)" for i
  proof (cases "i = k")
    case True
    with assms show ?thesis by simp
  next
    case False
    with assms(1) that show ?thesis by (simp add: slots_inv_iff)
  qed
  then show ?thesis by (simp add: slots_inv_iff)
qed

lemma slots_inv_send [simp]: "slots_inv (send ls s) = slots_inv s"
  by (simp add: slots_inv_def)

lemma well_formed_send [simp]: "well_formed (send ls s) = well_formed s"
  by (simp add: well_formed_def)

lemma well_formed_new: "well_formed (StompClient_new sj now)"
  by (simp add: well_formed_def StompClient_new_def)

text \<open>
  Claim C9. Every slot of the subscription table stores -1 (free) or its own index
  (live): this holds of a newly constructed client, and it is preserved by every call
  of \<open>subscribe\<close> and by every call of \<open>unsubscribe\<close> whose handle is in the range
  0..capacity-1. Neither call fails there, and the table keeps its length.
\<close>

theorem slots_invariant:
  "slots_inv (StompClient_new sj now) \<and>
   (well_formed s \<and> slots_inv s \<longrightarrow>
      (\<exists>r s'. subscribe q a h s = Inr (r, s') \<and> well_formed s' \<and> slots_inv s')) \<and>
   (well_formed s \<and> slots_inv s \<and> 0 \<le> n \<and> n < int STOMP_MAX_SUBSCRIPTIONS \<longrightarrow>
      (\<exists>s'. unsubscribe n s = Inr s' \<and> well_formed s' \<and> slots_inv s'))"
proof (intro conjI impI)
  show "slots_inv (StompClient_new sj now)"
    by (simp add: slots_inv_iff StompClient_new_def)
next
  assume a: "well_formed s \<and> slots_inv s"
  then have "well_formed s" by simp
  from subscribe_total [OF this, of q a h]
  show "\<exists>r s'. subscribe q a h s = Inr (r, s') \<and> well_formed s' \<and> slots_inv s'"
  proof (elim disjE exE conjE)
    assume "subscribe q a h s = Inr (- 1, s)"
    with a show ?thesis by simp
  next
    fix r
    assume r: "r < STOMP_MAX_SUBSCRIPTIONS"
      and eq: "subscribe q a h s =
               Inr (int r,
                    send [''SUBSCRIBE'', ''id:sub-'' @ String_int (int r),
                          ''destination:'' @ q, ''ack:'' @ ack_name a]
                      (s\<lparr>subscriptions := (subscriptions s)[r := \<lparr>id' = int r, messageHandler = h\<rparr>]\<rparr>))"
    let ?s' = "send [''SUBSCRIBE'', ''id:sub-'' @ String_int (int r),
                          ''destination:'' @ q, ''ack:'' @ ack_name a]
                      (s\<lparr>subscriptions := (subscriptions s)[r := \<lparr>id' = int r, messageHandler = h\<rparr>]\<rparr>)"
    from a have "well_formed ?s'"
      by (simp add: well_formed_def)
    moreover from a r have "slots_inv ?s'"
      using slots_inv_update [of s r "int r" h]
      by (simp add: well_formed_def)
    ultimately show ?thesis using eq by simp
  qed
next
  assume a: "well_formed s \<and> slots_inv s \<and> 0 \<le> n \<and> n < int STOMP_MAX_SUBSCRIPTIONS"
  let ?s' = "(send [''UNSUBSCRIBE'', ''id:sub-'' @ String_int n] s)
            \<lparr>subscriptions := (subscriptions s)[nat n := \<lparr>id' = - 1, messageHandler = None\<rparr>]\<rparr>"
  from a have "unsubscribe n s = Inr ?s'"
    by (simp add: unsubscribe_in_range_eq)
  moreover from a have "well_formed ?s'"
    by (simp add: well_formed_def)
  moreover have "slots_inv ?s'"
  proof -
    from a have nlt: "nat n < length (subscriptions s)"
      by (simp add: well_formed_def nat_less_iff)
    from a have si: "slots_inv s"
      by simp
    have "slots_inv (s\<lparr>subscriptions :=
            (subscriptions s)[nat n := \<lparr>id' = - 1, messageHandler = None\<rparr>]\<rparr>)"
      by (rule slots_inv_update [OF si nlt]) simp
    then show ?thesis
      by (simp add: slots_inv_def)
  qed
  ultimately show "\<exists>s'. unsubscribe n s = Inr s' \<and> well_formed s' \<and> slots_inv s'"
    by simp
qed

theorem slots_invariant_witness:
  "slots_inv (StompClient_new False 0) \<and>
   (\<exists>r s'. subscribe ''/queue/a'' CLIENT None (StompClient_new False 0) = Inr (r, s')
      \<and> well_formed s' \<and> slots_inv s') \<and>
   (\<exists>s'. unsubscribe 3 (StompClient_new False 0) = Inr s' \<and> well_formed s' \<and> slots_inv s')"
  using slots_invariant [of False 0 "StompClient_new False 0" "''/queue/a''" CLIENT None 3]
  by (simp add: well_formed_new STOMP_MAX_SUBSCRIPTIONS_def)

lemma full_client_wf: "well_formed full_client"
  by (simp add: well_formed_def full_client_def STOMP_MAX_SUBSCRIPTIONS_def)

lemma full_client_full: "full full_client"
  by (simp add: full_def full_client_def list_all_iff)

text \<open>
  Claim C8. When every slot is occupied, \<open>subscribe\<close> returns -1 and the client is
  left as it was: no frame is sent and no slot changes. After \<open>unsubscribe\<close> of a handle
  in range, the next \<open>subscribe\<close> returns the lowest-numbered free slot and makes it
  live; from a full table that slot is the handle just released.
\<close>

theorem subscribe_at_capacity:
  assumes "well_formed s"
  shows "(full s \<longrightarrow> subscribe q a f s = Inr (- 1, s)) \<and>
         (0 \<le> h \<and> h < int STOMP_MAX_SUBSCRIPTIONS \<longrightarrow>
            (\<exists>s1 r s2. unsubscribe h s = Inr s1 \<and> subscribe q a f s1 = Inr (int r, s2) \<and>
               r < STOMP_MAX_SUBSCRIPTIONS \<and> id' (subscriptions s1 ! r) = - 1 \<and>
               (\<forall>j<r. id' (subscriptions s1 ! j) \<noteq> - 1) \<and>
               id' (subscriptions s2 ! r) = int r \<and>
               (full s \<longrightarrow> int r = h)))"
proof (intro conjI impI)
  assume "full s"
  with subscribe_total [OF assms, of q a f] show "subscribe q a f s = Inr (- 1, s)"
    by (auto simp: full_iff assms [unfolded well_formed_def])
next
  assume h: "0 \<le> h \<and> h < int STOMP_MAX_SUBSCRIPTIONS"
  define s1 where "s1 = (send [''UNSUBSCRIBE'', ''id:sub-'' @ String_int h] s)
            \<lparr>subscriptions := (subscriptions s)[nat h := \<lparr>id' = - 1, messageHandler = None\<rparr>]\<rparr>"
  from h assms have u: "unsubscribe h s = Inr s1"
    by (simp add: unsubscribe_in_range_eq s1_def)
  from assms have wf1: "well_formed s1"
    by (simp add: well_formed_def s1_def)
  from h assms have hlt: "nat h < length (subscriptions s)"
    by (simp add: well_formed_def nat_less_iff)
  then have free: "id' (subscriptions s1 ! nat h) = - 1"
    by (simp add: s1_def)
  then have "\<not> full s1"
    using hlt by (auto simp: full_iff s1_def)
  with subscribe_total [OF wf1, of q a f]
  obtain r where r: "r < STOMP_MAX_SUBSCRIPTIONS" "id' (subscriptions s1 ! r) = - 1"
    "\<forall>j<r. id' (subscriptions s1 ! j) \<noteq> - 1"
    and eq: "subscribe q a f s1 =
               Inr (int r,
                    send [''SUBSCRIBE'', ''id:sub-'' @ String_int (int r),
                          ''destination:'' @ q, ''ack:'' @ ack_name a]
                      (s1\<lparr>subscriptions := (subscriptions s1)[r := \<lparr>id' = int r, messageHandler = f\<rparr>]\<rparr>))"
    by blast
  from r wf1 have live: "id' (subscriptions (send [''SUBSCRIBE'', ''id:sub-'' @ String_int (int r),
                          ''destination:'' @ q, ''ack:'' @ ack_name a]
                      (s1\<lparr>subscriptions := (subscriptions s1)[r := \<lparr>id' = int r, messageHandler = f\<rparr>]\<rparr>)) ! r) = int r"
    by (simp add: well_formed_def)
  have "int r = h" if "full s"
  proof -
    have "\<not> nat h < r"
      using r(3) free by blast
    moreover have "\<not> r < nat h"
    proof
      assume "r < nat h"
      with hlt have "subscriptions s1 ! r = subscriptions s ! r" "r < length (subscriptions s)"
        by (simp_all add: s1_def)
      with r(2) that show False
        by (simp add: full_iff)
    qed
    ultimately have "r = nat h" by simp
    with h show ?thesis by simp
  qed
  with u eq r live
  show "\<exists>s1 r s2. unsubscribe h s = Inr s1 \<and> subscribe q a f s1 = Inr (int r, s2) \<and>
               r < STOMP_MAX_SUBSCRIPTIONS \<and> id' (subscriptions s1 ! r) = - 1 \<and>
               (\<forall>j<r. id' (subscriptions s1 ! j) \<noteq> - 1) \<and>
               id' (subscriptions s2 ! r) = int r \<and>
               (full s \<longrightarrow> int r = h)"
    by blast
qed

text \<open>
  Claim C8 on the client with eight live slots: \<open>subscribe\<close> returns -1, and after
  \<open>unsubscribe(3)\<close> it returns 3.
\<close>

theorem subscribe_at_capacity_witness:
  "subscribe ''/queue/a'' AUTO None full_client = Inr (- 1, full_client) \<and>
   (\<exists>s1 s2. unsubscribe 3 full_client = Inr s1 \<and>
      subscribe ''/queue/a'' AUTO None s1 = Inr (3, s2))"
  using subscribe_at_capacity [OF full_client_wf, of "''/queue/a''" AUTO None 3]
  by (simp add: full_client_full STOMP_MAX_SUBSCRIPTIONS_def) metis

text \<open>
  Claim C3 as stated fails. On a new client slot 0 is free, and \<open>unsubscribe(0)\<close> still
  sends an UNSUBSCRIBE frame and advances the command counter; \<open>unsubscribe(8)\<close> and
  \<open>unsubscribe(-1)\<close> write outside the table.
\<close>

theorem unsubscribe_counterexample:
  "unsubscribe 0 (StompClient_new False 0) =
     Inr ((StompClient_new False 0)
            \<lparr>commandCount := 1,
             effects := [SendTXT ''UNSUBSCRIBE\<newline>id:sub-0\<newline>\<newline>'' 23]\<rparr>) \<and>
   unsubscribe 8 (StompClient_new False 0) = Inl (OutOfBounds 8) \<and>
   unsubscribe (- 1) (StompClient_new False 0) = Inl (OutOfBounds (- 1))"
  by (simp add: unsubscribe_def send_def StompClient_new_def STOMP_MAX_SUBSCRIPTIONS_def
      String_int_def String_nat.simps nl_def numeral_eq_Suc)

lemma map_id_update_free:
  assumes "k < length subs" "id' (subs ! k) = - 1"
  shows "map id' (subs[k := \<lparr>id' = - 1, messageHandler = None\<rparr>]) = map id' subs"
proof -
  have "map id' (subs[k := \<lparr>id' = - 1, messageHandler = None\<rparr>]) = (map id' subs)[k := - 1]"
    by (simp add: map_update)
  also from assms have "\<dots> = (map id' subs)[k := map id' subs ! k]"
    by simp
  also have "\<dots> = map id' subs"
    by (rule list_update_id)
  finally show ?thesis .
qed

text \<open>
  Claim C3, amended. For every handle in the range 0..capacity-1, live or already free,
  \<open>unsubscribe\<close> does not fail: it sends one UNSUBSCRIBE frame with
  \<open>id:sub-<handle>\<close>, leaves that slot free with a null handler and every other slot
  as it was; when the slot was already free, every slot's stored id is unchanged.
\<close>

theorem unsubscribe_in_range:
  assumes "well_formed s" "0 \<le> h" "h < int STOMP_MAX_SUBSCRIPTIONS"
  shows "\<exists>s'. unsubscribe h s = Inr s' \<and>
           effects s' = effects s @
             [SendTXT (''UNSUBSCRIBE\<newline>id:sub-'' @ String_int h @ ''\<newline>\<newline>'')
                (length (String_int h) + 22)] \<and>
           subscriptions s' = (subscriptions s)[nat h := \<lparr>id' = - 1, messageHandler = None\<rparr>] \<and>
           (id' (subscriptions s ! nat h) = - 1 \<longrightarrow>
              map id' (subscriptions s') = map id' (subscriptions s))"
proof -
  let ?s' = "(send [''UNSUBSCRIBE'', ''id:sub-'' @ String_int h] s)
            \<lparr>subscriptions := (subscriptions s)[nat h := \<lparr>id' = - 1, messageHandler = None\<rparr>]\<rparr>"
  from assms have hlt: "nat h < length (subscriptions s)"
    by (simp add: well_formed_def nat_less_iff)
  from assms have "unsubscribe h s = Inr ?s'"
    by (simp add: unsubscribe_def Let_def well_formed_def)
  moreover have "effects ?s' = effects s @
             [SendTXT (''UNSUBSCRIBE\<newline>id:sub-'' @ String_int h @ ''\<newline>\<newline>'')
                (length (String_int h) + 22)]"
    by (simp add: send_effects nl_def)
  moreover have "subscriptions ?s' = (subscriptions s)[nat h := \<lparr>id' = - 1, messageHandler = None\<rparr>]"
    by simp
  moreover have "map id' (subscriptions ?s') = map id' (subscriptions s)"
    if "id' (subscriptions s ! nat h) = - 1"
    using map_id_update_free [OF hlt that] by simp
  ultimately show ?thesis
    by blast
qed

text \<open>
  Claim C3, amended, on a new client and handle 0, a free slot.
\<close>

theorem unsubscribe_in_range_witness:
  "\<exists>s'. unsubscribe 0 (StompClient_new False 0) = Inr s' \<and>
           effects s' = [SendTXT ''UNSUBSCRIBE\<newline>id:sub-0\<newline>\<newline>'' 23] \<and>
           map id' (subscriptions s') = map id' (subscriptions (StompClient_new False 0))"
  using unsubscribe_in_range [of "StompClient_new False 0" 0]
  by (simp add: well_formed_def StompClient_new_def STOMP_MAX_SUBSCRIPTIONS_def
      String_int_def String_nat.simps) blast

subsection \<open>Acknowledgements\<close>

lemma getValue_absent: "\<forall>h\<in>set hs. key h \<noteq> k \<Longrightarrow> getValue hs k = []"
  by (induction hs) simp_all

text \<open>
  Claim C10. For a message without an \<open>ack\<close> header, \<open>ack\<close> and \<open>nack\<close> (total
  functions of the model: nothing in them can fail) each send exactly one frame, ACK or
  NACK, whose \<open>id\<close> header has the empty value.
\<close>

theorem ack_without_ack_header:
  assumes "\<forall>h\<in>set (headers m). key h \<noteq> ''ack''"
  shows "effects (ack m s) = effects s @ [SendTXT ''ACK\<newline>id:\<newline>\<newline>'' 10] \<and>
         effects (nack m s) = effects s @ [SendTXT ''NACK\<newline>id:\<newline>\<newline>'' 11]"
  using getValue_absent [OF assms]
  by (simp add: ack_def nack_def send_effects nl_def)

text \<open>
  Claim C10 on a message that carries a \<open>subscription\<close> header only.
\<close>

theorem ack_without_ack_header_witness:
  "effects (ack \<lparr>command = ''MESSAGE'',
                   headers = [\<lparr>key = ''subscription'', value' = ''sub-0''\<rparr>],
                   body = ''hello''\<rparr> (StompClient_new False 0)) =
     [SendTXT ''ACK\<newline>id:\<newline>\<newline>'' 10] \<and>
   effects (nack \<lparr>command = ''MESSAGE'',
                    headers = [\<lparr>key = ''subscription'', value' = ''sub-0''\<rparr>],
                    body = ''hello''\<rparr> (StompClient_new False 0)) =
     [SendTXT ''NACK\<newline>id:\<newline>\<newline>'' 11]"
  using ack_without_ack_header
    [of "\<lparr>command = ''MESSAGE'', headers = [\<lparr>key = ''subscription'', value' = ''sub-0''\<rparr>],
          body = ''hello''\<rparr>" "StompClient_new False 0"]
  by (simp add: StompClient_new_def)

subsection \<open>The last-send timestamp\<close>

lemma send_lastSent: "lastSent (send ls s) = millis s"
  by (simp add: send_def Let_def)

lemma sendHeartbeat_lastSent: "lastSent (sendHeartbeat s) = millis s"
  by (simp add: sendHeartbeat_def Let_def)

lemma sendWithHeaders_lastSent: "lastSent (sendWithHeaders l0 r hs s) = lastSent s"
  by (simp add: sendWithHeaders_def Let_def)

text \<open>
  Claim C5 fails for \<open>sendMessageAndHeaders\<close>. With the clock at 5000 and the last send
  at 0, it sends its frame and leaves \<open>_lastSent\<close> at 0, where \<open>sendMessage\<close> and the
  heartbeat set it to 5000.
\<close>

theorem sendMessageAndHeaders_stale_lastSent:
  "effects (sendMessageAndHeaders ''/queue/a'' ''hi'' [\<lparr>key = ''k'', value' = ''v''\<rparr>]
      ((StompClient_new False 0)\<lparr>millis := 5000\<rparr>)) =
     [SendTXT ''SEND\<newline>k:v\<newline>destination:/queue/a\<newline>\<newline>hi\<newline>\<newline>'' 36] \<and>
   lastSent (sendMessageAndHeaders ''/queue/a'' ''hi'' [\<lparr>key = ''k'', value' = ''v''\<rparr>]
      ((StompClient_new False 0)\<lparr>millis := 5000\<rparr>)) = 0 \<and>
   lastSent (sendMessage ''/queue/a'' ''hi'' ((StompClient_new False 0)\<lparr>millis := 5000\<rparr>)) = 5000 \<and>
   lastSent (sendHeartbeat ((StompClient_new False 0)\<lparr>millis := 5000\<rparr>)) = 5000"
  by (simp add: sendMessageAndHeaders_def sendWithHeaders_def sendMessage_def send_def
      sendHeartbeat_def StompClient_new_def nl_def)

subsection \<open>Disconnection\<close>

lemma disconnect_state: "state (disconnect s) = state s"
  by (simp add: disconnect_def send_def Let_def)

text \<open>
  Claim C1 fails on the state. On a connected client with a disconnect handler,
  \<open>disconnect\<close> sends the one DISCONNECT frame with \<open>receipt:0\<close>, the command counter's
  value, but the state stays \<open>CONNECTED\<close>; the RECEIPT frame that follows changes
  nothing: the state is not \<open>DISCONNECTED\<close> and the disconnect handler is not called.
\<close>

theorem disconnect_stays_connected:
  "effects (disconnect ((StompClient_new False 0)\<lparr>state := CONNECTED, disconnectHandler := Some 1\<rparr>)) =
     [SendTXT ''DISCONNECT\<newline>receipt:0\<newline>\<newline>'' 23] \<and>
   state (disconnect ((StompClient_new False 0)\<lparr>state := CONNECTED, disconnectHandler := Some 1\<rparr>)) =
     CONNECTED \<and>
   handleCommand \<lparr>command = ''RECEIPT'', headers = [\<lparr>key = ''receipt-id'', value' = ''0''\<rparr>],
       body = []\<rparr>
     (disconnect ((StompClient_new False 0)\<lparr>state := CONNECTED, disconnectHandler := Some 1\<rparr>)) =
     Inr (disconnect ((StompClient_new False 0)\<lparr>state := CONNECTED, disconnectHandler := Some 1\<rparr>))"
  by (simp add: disconnect_def send_def handleCommand_def handleReceipt_def invoke_def
      StompClient_new_def String_nat.simps nl_def)

subsection \<open>Heartbeat negotiation\<close>

lemma toInt_range: "LONG_MIN \<le> toInt t \<and> toInt t \<le> LONG_MAX"
  by (simp add: toInt_def LONG_MIN_def LONG_MAX_def)

lemma uint_interval:
  "uint (word_of_int (max (toInt t) preferredHeartbeat) :: 32 word) = max (toInt t) preferredHeartbeat"
proof -
  have "0 \<le> max (toInt t) preferredHeartbeat"
    by (simp add: preferredHeartbeat_def max_def)
  moreover have "max (toInt t) preferredHeartbeat < 2 ^ 32"
    using toInt_range [of t] by (simp add: preferredHeartbeat_def LONG_MAX_def)
  ultimately show ?thesis
    by (simp add: uint_word_of_int)
qed

lemma toInt_5000: "toInt ''5000,0'' = 5000"
  by (simp add: toInt_def atol_def isspace_def isdigit_def digit_value_def LONG_MIN_def LONG_MAX_def)

lemma toInt_20000: "toInt ''20000,0'' = 20000"
  by (simp add: toInt_def atol_def isspace_def isdigit_def digit_value_def LONG_MIN_def LONG_MAX_def)

text \<open>
  Claim C7. A CONNECTED frame received while the state is not \<open>CONNECTED\<close>, with a
  non-empty \<open>heart-beat\<close> header, makes the state \<open>CONNECTED\<close> and sets the heartbeat
  interval to the maximum of the integer read from the start of the header value and
  the preferred interval, 10000: \<open>5000,0\<close> gives 10000 and \<open>20000,0\<close> gives 20000.
\<close>

theorem heartbeat_negotiation:
  assumes "command c = ''CONNECTED''" "state s \<noteq> CONNECTED"
    "getValue (headers c) ''heart-beat'' \<noteq> []"
  shows "\<exists>s'. handleCommand c s = Inr s' \<and> state s' = CONNECTED \<and>
           uint (heartbeatInterval s') =
             max (toInt (getValue (headers c) ''heart-beat'')) preferredHeartbeat \<and>
           preferredHeartbeat = 10000 \<and>
           (getValue (headers c) ''heart-beat'' = ''5000,0'' \<longrightarrow>
              uint (heartbeatInterval s') = 10000) \<and>
           (getValue (headers c) ''heart-beat'' = ''20000,0'' \<longrightarrow>
              uint (heartbeatInterval s') = 20000)"
proof -
  let ?hb = "getValue (headers c) ''heart-beat''"
  let ?s1 = "parseHeartbeat c (s\<lparr>state := CONNECTED\<rparr>)"
  let ?s' = "invoke (connectHandler ?s1) c ?s1"
  from assms have eq: "handleCommand c s = Inr ?s'"
    by (simp add: handleCommand_def handleConnected_def Let_def)
  from assms(3) have hi: "heartbeatInterval ?s' = word_of_int (max (toInt ?hb) preferredHeartbeat)"
    by (simp add: parseHeartbeat_def invoke_def Let_def split: option.split)
  have st: "state ?s' = CONNECTED"
    by (simp add: parseHeartbeat_def invoke_def Let_def split: option.split)
  have u: "uint (heartbeatInterval ?s') = max (toInt ?hb) preferredHeartbeat"
    by (simp only: hi uint_interval)
  have "uint (heartbeatInterval ?s') = 10000" if "?hb = ''5000,0''"
    using u that toInt_5000 by (simp add: preferredHeartbeat_def)
  moreover have "uint (heartbeatInterval ?s') = 20000" if "?hb = ''20000,0''"
    using u that toInt_20000 by (simp add: preferredHeartbeat_def)
  ultimately show ?thesis
    using eq st u by (simp add: preferredHeartbeat_def)
qed

text \<open>
  Claim C7 on the two frames of the claim, received in state \<open>OPENING\<close>.
\<close>

theorem heartbeat_negotiation_witness:
  "(\<exists>s'. handleCommand \<lparr>command = ''CONNECTED'',
                          headers = [\<lparr>key = ''version'', value' = ''1.1''\<rparr>,
                                     \<lparr>key = ''heart-beat'', value' = ''5000,0''\<rparr>],
                          body = []\<rparr>
            ((StompClient_new False 0)\<lparr>state := OPENING\<rparr>) = Inr s' \<and>
         state s' = CONNECTED \<and> uint (heartbeatInterval s') = 10000) \<and>
   (\<exists>s'. handleCommand \<lparr>command = ''CONNECTED'',
                          headers = [\<lparr>key = ''version'', value' = ''1.1''\<rparr>,
                                     \<lparr>key = ''heart-beat'', value' = ''20000,0''\<rparr>],
                          body = []\<rparr>
            ((StompClient_new False 0)\<lparr>state := OPENING\<rparr>) = Inr s' \<and>
         state s' = CONNECTED \<and> uint (heartbeatInterval s') = 20000)"
  using
    heartbeat_negotiation [of "\<lparr>command = ''CONNECTED'',
                          headers = [\<lparr>key = ''version'', value' = ''1.1''\<rparr>,
                                     \<lparr>key = ''heart-beat'', value' = ''5000,0''\<rparr>],
                          body = []\<rparr>" "(StompClient_new False 0)\<lparr>state := OPENING\<rparr>"]
    heartbeat_negotiation [of "\<lparr>command = ''CONNECTED'',
                          headers = [\<lparr>key = ''version'', value' = ''1.1''\<rparr>,
                                     \<lparr>key = ''heart-beat'', value' = ''20000,0''\<rparr>],
                          body = []\<rparr>" "(StompClient_new False 0)\<lparr>state := OPENING\<rparr>"]
  by simp blast

subsection \<open>The open transition\<close>

lemma connectStomp_opening: "state s = OPENING \<Longrightarrow> connectStomp s = s"
  by (simp add: connectStomp_def)

lemma String_int_preferredHeartbeat: "String_int preferredHeartbeat = ''10000''"
  by (simp add: String_int_def preferredHeartbeat_def String_nat.simps)

lemma connectStomp_other:
  assumes "state s \<noteq> OPENING"
  shows "state (connectStomp s) = OPENING \<and>
         effects (connectStomp s) = effects s @
           [SendTXT (''CONNECT\<newline>accept-version:1.1,1.0\<newline>heart-beat:10000,0\<newline>''
                     @ (case user s of None \<Rightarrow> [] | Some u \<Rightarrow> ''login:'' @ u @ ''\<newline>'')
                     @ ''\<newline>'')
              (case user s of None \<Rightarrow> 52 | Some u \<Rightarrow> length u + 59)]"
  using assms
  by (simp add: connectStomp_def Let_def send_def String_int_preferredHeartbeat nl_def
      split: option.split)

text \<open>
  Claim C2 as stated fails. A transport "connected" event in state \<open>CONNECTED\<close>, and a
  session-open pulse in state \<open>DISCONNECTING\<close>, both move the state to \<open>OPENING\<close> and
  send a CONNECT frame.
\<close>

theorem open_transition_counterexample:
  "handleWebSocketEvent decode WStype_CONNECTED ''/ws''
     ((StompClient_new False 0)\<lparr>state := CONNECTED\<rparr>) =
   Inr ((StompClient_new False 0)
          \<lparr>state := OPENING, commandCount := 1,
           effects := [SendTXT
             ''CONNECT\<newline>accept-version:1.1,1.0\<newline>heart-beat:10000,0\<newline>\<newline>'' 52]\<rparr>) \<and>
   handleWebSocketEvent decode WStype_TEXT ''o''
     ((StompClient_new True 0)\<lparr>state := DISCONNECTING\<rparr>) =
   Inr ((StompClient_new True 0)
          \<lparr>state := OPENING, commandCount := 1,
           effects := [SendTXT
             ''CONNECT\<newline>accept-version:1.1,1.0\<newline>heart-beat:10000,0\<newline>\<newline>'' 52]\<rparr>)"
  by (simp add: handleWebSocketEvent_def connectStomp_def send_def payload0_def
      StompClient_new_def String_int_preferredHeartbeat nl_def)

text \<open>
  Claim C2, amended. A transport "connected" event, or a session-open pulse in SockJS
  mode, is a no-op exactly while the state is \<open>OPENING\<close>: then the client is left as it
  was and nothing is sent. In every other state (\<open>DISCONNECTED\<close>, \<open>CONNECTED\<close> or
  \<open>DISCONNECTING\<close>) the state becomes \<open>OPENING\<close> and one CONNECT frame is sent.
\<close>

theorem open_transition_guard:
  "(state s = OPENING \<longrightarrow>
      handleWebSocketEvent parse WStype_CONNECTED text s = Inr s \<and>
      (sockjs s \<and> payload0 text = CHR ''o'' \<longrightarrow>
         handleWebSocketEvent parse WStype_TEXT text s = Inr s)) \<and>
   (state s \<noteq> OPENING \<longrightarrow>
      (\<exists>s'. handleWebSocketEvent parse WStype_CONNECTED text s = Inr s' \<and>
         (sockjs s \<and> payload0 text = CHR ''o'' \<longrightarrow>
            handleWebSocketEvent parse WStype_TEXT text s = Inr s') \<and>
         state s' = OPENING \<and>
         effects s' = effects s @
           [SendTXT (''CONNECT\<newline>accept-version:1.1,1.0\<newline>heart-beat:10000,0\<newline>''
                     @ (case user s of None \<Rightarrow> [] | Some u \<Rightarrow> ''login:'' @ u @ ''\<newline>'')
                     @ ''\<newline>'')
              (case user s of None \<Rightarrow> 52 | Some u \<Rightarrow> length u + 59)]))"
proof (intro conjI impI)
  assume "state s = OPENING"
  then show "handleWebSocketEvent parse WStype_CONNECTED text s = Inr s"
    by (simp add: handleWebSocketEvent_def connectStomp_opening)
next
  assume "state s = OPENING" "sockjs s \<and> payload0 text = CHR ''o''"
  then show "handleWebSocketEvent parse WStype_TEXT text s = Inr s"
    by (simp add: handleWebSocketEvent_def connectStomp_opening)
next
  assume a: "state s \<noteq> OPENING"
  have "handleWebSocketEvent parse WStype_CONNECTED text s = Inr (connectStomp s)"
    by (simp add: handleWebSocketEvent_def)
  moreover have "handleWebSocketEvent parse WStype_TEXT text s = Inr (connectStomp s)"
    if "sockjs s \<and> payload0 text = CHR ''o''"
    using that by (simp add: handleWebSocketEvent_def)
  ultimately show "\<exists>s'. handleWebSocketEvent parse WStype_CONNECTED text s = Inr s' \<and>
         (sockjs s \<and> payload0 text = CHR ''o'' \<longrightarrow>
            handleWebSocketEvent parse WStype_TEXT text s = Inr s') \<and>
         state s' = OPENING \<and>
         effects s' = effects s @
           [SendTXT (''CONNECT\<newline>accept-version:1.1,1.0\<newline>heart-beat:10000,0\<newline>''
                     @ (case user s of None \<Rightarrow> [] | Some u \<Rightarrow> ''login:'' @ u @ ''\<newline>'')
                     @ ''\<newline>'')
              (case user s of None \<Rightarrow> 52 | Some u \<Rightarrow> length u + 59)]"
    using connectStomp_other [OF a] by blast
qed

text \<open>
  Claim C2, amended, on a SockJS client: in state \<open>OPENING\<close> both events leave it as it
  is, and in state \<open>DISCONNECTED\<close> the open pulse sends the CONNECT frame.
\<close>

theorem open_transition_guard_witness:
  "handleWebSocketEvent decode WStype_CONNECTED ''/ws''
     ((StompClient_new True 0)\<lparr>state := OPENING\<rparr>) =
     Inr ((StompClient_new True 0)\<lparr>state := OPENING\<rparr>) \<and>
   handleWebSocketEvent decode WStype_TEXT ''o''
     ((StompClient_new True 0)\<lparr>state := OPENING\<rparr>) =
     Inr ((StompClient_new True 0)\<lparr>state := OPENING\<rparr>) \<and>
   (\<exists>s'. handleWebSocketEvent decode WStype_TEXT ''o'' (StompClient_new True 0) = Inr s' \<and>
      state s' = OPENING \<and>
      effects s' = [SendTXT
        ''CONNECT\<newline>accept-version:1.1,1.0\<newline>heart-beat:10000,0\<newline>\<newline>'' 52])"
  using
    open_transition_guard [of "(StompClient_new True 0)\<lparr>state := OPENING\<rparr>" decode "''o''"]
    open_transition_guard [of "(StompClient_new True 0)\<lparr>state := OPENING\<rparr>" decode "''/ws''"]
    open_transition_guard [of "StompClient_new True 0" decode "''o''"]
  by (simp add: StompClient_new_def payload0_def) blast

subsection \<open>Message routing\<close>

lemma handleMessage_not_ours:
  "\<not> startsWith (getValue (headers m) ''subscription'') ''sub-'' \<Longrightarrow> handleMessage m s = Inr s"
  by (simp add: handleMessage_def)

lemma handleMessage_not_live:
  assumes "startsWith (getValue (headers m) ''subscription'') ''sub-''"
    and "toInt (substring (getValue (headers m) ''subscription'') 4) = i"
    and "0 \<le> i" "i < int (length (subscriptions s))"
    and "id' (subscriptions s ! nat i) \<noteq> i"
  shows "handleMessage m s = Inr s"
  using assms by (simp add: handleMessage_def slot_def Let_def)

lemma handleMessage_out_of_range:
  assumes "startsWith (getValue (headers m) ''subscription'') ''sub-''"
    and "toInt (substring (getValue (headers m) ''subscription'') 4) = i"
    and "i < 0 \<or> int (length (subscriptions s)) \<le> i"
  shows "handleMessage m s = Inl (OutOfBounds i)"
  using assms by (auto simp: handleMessage_def slot_def Let_def)

text \<open>
  Claim C4 fails. A MESSAGE frame for \<open>sub-8\<close> or \<open>sub--1\<close> makes \<open>_handleMessage\<close>
  read \<open>_subscriptions[8]\<close> or \<open>_subscriptions[-1]\<close>, outside the table of eight slots.
  And a token that is no index at all, \<open>sub-x\<close>, is read as index 0: with slot 0 live,
  its handler is called and the ACK it asks for is sent.
\<close>

theorem message_slot_unchecked:
  "handleCommand
     \<lparr>command = ''MESSAGE'',
      headers = [\<lparr>key = ''subscription'', value' = ''sub-8''\<rparr>,
                 \<lparr>key = ''message-id'', value' = ''m1''\<rparr>],
      body = ''x''\<rparr>
     (StompClient_new False 0) = Inl (OutOfBounds 8) \<and>
   handleCommand
     \<lparr>command = ''MESSAGE'',
      headers = [\<lparr>key = ''subscription'', value' = ''sub--1''\<rparr>,
                 \<lparr>key = ''message-id'', value' = ''m1''\<rparr>],
      body = ''x''\<rparr>
     (StompClient_new False 0) = Inl (OutOfBounds (- 1)) \<and>
   (\<exists>s1. subscribe ''/queue/a'' CLIENT (Some (\<lambda>m. ACK)) (StompClient_new False 0) = Inr (0, s1) \<and>
      effects s1 =
        [SendTXT ''SUBSCRIBE\<newline>id:sub-0\<newline>destination:/queue/a\<newline>ack:client\<newline>\<newline>'' 53] \<and>
      (\<exists>s2. handleCommand
               \<lparr>command = ''MESSAGE'',
                headers = [\<lparr>key = ''subscription'', value' = ''sub-x''\<rparr>,
                           \<lparr>key = ''ack'', value' = ''m1''\<rparr>],
                body = ''x''\<rparr> s1 = Inr s2 \<and>
         effects s2 = effects s1 @
           [MessageCallback 0
              \<lparr>command = ''MESSAGE'',
               headers = [\<lparr>key = ''subscription'', value' = ''sub-x''\<rparr>,
                          \<lparr>key = ''ack'', value' = ''m1''\<rparr>],
               body = ''x''\<rparr>,
            SendTXT ''ACK\<newline>id:m1\<newline>\<newline>'' 12]))"
  by (simp add: handleCommand_def handleMessage_def startsWith_def substring_def toInt_def
      atol_def isspace_def isdigit_def digit_value_def LONG_MIN_def LONG_MAX_def slot_def
      StompClient_new_def STOMP_MAX_SUBSCRIPTIONS_def subscribe_def subscribe_loop.simps
      String_int_def String_nat.simps ack_name_def ack_def send_def nl_def)

subsection \<open>Session-wrapper mode\<close>

text \<open>
  What StompClient.h itself does with incoming text in SockJS mode: a text that starts
  with \<open>h\<close> only increments the heartbeat count, one that starts with \<open>o\<close> only
  triggers the open transition, and a text that starts with \<open>a\<close> is handed to
  \<open>StompCommandParser::parse\<close> as it arrived. Whether the marker and the array envelope
  are removed before the STOMP grammar is applied is decided inside \<open>parse\<close>, which is
  not among the sources: the equation below holds of a parser that removes them and of
  one that does not.
\<close>

lemma sockjs_text_dispatch:
  assumes "sockjs s"
  shows "handleWebSocketEvent parse WStype_TEXT (CHR ''h'' # rest) s =
           Inr (s\<lparr>heartbeats := heartbeats s + 1\<rparr>) \<and>
         handleWebSocketEvent parse WStype_TEXT (CHR ''o'' # rest) s = Inr (connectStomp s) \<and>
         handleWebSocketEvent parse WStype_TEXT (CHR ''a'' # rest) s =
           handleCommand (parse (CHR ''a'' # rest)) s"
  using assms by (simp add: handleWebSocketEvent_def payload0_def)

end
